theory Spec2Isabelle
  imports Main "HOL-Library.AList" "HOL-Library.Sublist"
begin

section \<open>VMC Renamer (mc\_vmc\_renamer.py): a shallow embedding\<close>

text \<open>
  The program renames GameCube memory-card save directories between the MCGCP layout
  (\<^verbatim>\<open>MemoryCards/GAFE0100/GAFE0100-1.raw\<close>) and the GCMCE layout
  (\<^verbatim>\<open>MemoryCards/GC/DL-DOL-GAFE-USA/DL-DOL-GAFE-USA-1.raw\<close>).
  Every function of the source is a HOL function of the same name. The file system is an
  explicit value that is passed in and returned; a raised exception is a value of type
  \<open>error\<close>. Text written to stdout or stderr is not part of the model.
\<close>

subsection \<open>Strings\<close>

text \<open>
  Python strings are modelled as \<open>string\<close> (a list of 8-bit characters). The model is exact
  for ASCII text; \<open>upper\<close> leaves every character outside \<open>a..z\<close> unchanged.
\<close>

definition upper_char :: "char \<Rightarrow> char" where
  "upper_char c =
     (case map_of (zip ''abcdefghijklmnopqrstuvwxyz'' ''ABCDEFGHIJKLMNOPQRSTUVWXYZ'') c of
        Some u \<Rightarrow> u
      | None \<Rightarrow> c)"

definition upper :: "string \<Rightarrow> string" where
  "upper s = map upper_char s"

subsection \<open>Region tables (lines 44--67)\<close>

text \<open>A Python \<open>dict\<close> with string keys and values is a map \<open>string \<rightharpoonup> string\<close>.\<close>

type_synonym table = "string \<rightharpoonup> string"

definition DEFAULT_REGION3_FROM_LETTER :: table where
  "DEFAULT_REGION3_FROM_LETTER = map_of
     [(''E'', ''USA''), (''J'', ''JPN''), (''P'', ''EUR''), (''K'', ''KOR''),
      (''D'', ''GER''), (''F'', ''FRA''), (''I'', ''ITA''), (''S'', ''ESP''),
      (''X'', ''OTH''), (''Y'', ''OTH''), (''Z'', ''OTH'')]"

definition DEFAULT_LETTER_FROM_REGION3 :: table where
  "DEFAULT_LETTER_FROM_REGION3 = map_of
     [(''USA'', ''E''), (''JPN'', ''J''), (''EUR'', ''P''), (''KOR'', ''K''),
      (''GER'', ''D''), (''FRA'', ''F''), (''ITA'', ''I''), (''ESP'', ''S''),
      (''OTH'', ''X'')]"

subsection \<open>Exceptions\<close>

text \<open>
  The exception classes the program can meet. All but \<open>AttributeError\<close> and
  \<open>JSONDecodeError\<close> are subclasses of \<open>OSError\<close>. \<open>ShutilError\<close> stands for the way
  \<open>shutil.copytree\<close> ends when it cannot finish (\<open>shutil.Error\<close>, or \<open>RecursionError\<close> when
  the copy descends into itself too deeply first); nothing in the program catches it.
\<close>

datatype error =
    FileExistsError | FileNotFoundError | NotADirectoryError | IsADirectoryError
  | OSError | SameFileError | ShutilError | AttributeError | JSONDecodeError

definition is_OSError :: "error \<Rightarrow> bool" where
  "is_OSError e = (e \<noteq> AttributeError \<and> e \<noteq> JSONDecodeError)"

subsection \<open>Paths (pathlib, POSIX flavour)\<close>

text \<open>
  A resolved absolute path is the list of its components below the root; \<open>[]\<close> is the
  root itself. \<open>path_join p s\<close> is \<open>p / s\<close>: the string is split at slashes, empty and
  \<open>.\<close> components are dropped, and a string that starts with a slash replaces \<open>p\<close>.
  Components \<open>..\<close> are kept by pathlib and are not interpreted by this model.
\<close>

type_synonym path = "string list"

fun split_slash :: "string \<Rightarrow> string list" where
  "split_slash [] = [[]]"
| "split_slash (c # cs) =
     (if c = CHR ''/'' then [] # split_slash cs
      else (case split_slash cs of [] \<Rightarrow> [[c]] | w # ws \<Rightarrow> (c # w) # ws))"

definition parts :: "string \<Rightarrow> string list" where
  "parts s = filter (\<lambda>w. w \<noteq> [] \<and> w \<noteq> ''.'') (split_slash s)"

definition path_join :: "path \<Rightarrow> string \<Rightarrow> path" where
  "path_join p s = (if s \<noteq> [] \<and> hd s = CHR ''/'' then parts s else p @ parts s)"

definition parent :: "path \<Rightarrow> path" where
  "parent p = butlast p"

definition name_of :: "path \<Rightarrow> string" where
  "name_of p = (if p = [] then [] else last p)"

subsection \<open>The file system\<close>

text \<open>
  A file system is a tree: a file with its contents, or a directory with its entries in
  the order in which \<open>iterdir\<close> lists them. Links, permissions and timestamps are not
  modelled. A well-formed directory has no two entries of the same name; where a name
  occurs twice, the first entry is the one a path reaches.
\<close>

datatype node = File string | Dir "(string \<times> node) list"

fun lookup :: "node \<Rightarrow> path \<Rightarrow> node option" where
  "lookup n [] = Some n"
| "lookup (File d) (c # cs) = None"
| "lookup (Dir es) (c # cs) = (case map_of es c of None \<Rightarrow> None | Some ch \<Rightarrow> lookup ch cs)"

definition exists :: "node \<Rightarrow> path \<Rightarrow> bool" where
  "exists fs p = (lookup fs p \<noteq> None)"

definition is_dir :: "node \<Rightarrow> path \<Rightarrow> bool" where
  "is_dir fs p = (case lookup fs p of Some (Dir es) \<Rightarrow> True | _ \<Rightarrow> False)"

definition iterdir :: "node \<Rightarrow> path \<Rightarrow> error + path list" where
  "iterdir fs p =
     (case lookup fs p of
        None \<Rightarrow> Inl FileNotFoundError
      | Some (File d) \<Rightarrow> Inl NotADirectoryError
      | Some (Dir es) \<Rightarrow> Inr (map (\<lambda>e. p @ [fst e]) es))"

text \<open>
  \<open>dir_err fs p\<close> is the error the operating system reports when \<open>p\<close> is used as a
  directory: none when it is one, \<open>ENOTDIR\<close> when a file stands on the way, \<open>ENOENT\<close>
  when a component is missing.
\<close>

fun dir_err :: "node \<Rightarrow> path \<Rightarrow> error option" where
  "dir_err (File d) p = Some NotADirectoryError"
| "dir_err (Dir es) [] = None"
| "dir_err (Dir es) (c # cs) =
     (case map_of es c of None \<Rightarrow> Some FileNotFoundError | Some ch \<Rightarrow> dir_err ch cs)"

text \<open>
  \<open>store p v fs\<close> writes (\<open>Some\<close>) or deletes (\<open>None\<close>) the entry at \<open>p\<close>. It changes
  nothing when \<open>p\<close> is the root or the parent of \<open>p\<close> is not an existing directory; the
  operations below call it only where the operating system would succeed.
\<close>

fun store :: "path \<Rightarrow> node option \<Rightarrow> node \<Rightarrow> node" where
  "store [] v n = n"
| "store (c # cs) v (File d) = File d"
| "store [c] v (Dir es) =
     Dir (case v of None \<Rightarrow> AList.delete c es | Some m \<Rightarrow> AList.update c m es)"
| "store (c # c' # cs) v (Dir es) =
     (case map_of es c of
        None \<Rightarrow> Dir es
      | Some ch \<Rightarrow> Dir (AList.update c (store (c' # cs) v ch) es))"

text \<open>An effect returns the exception it raised, if any, and the file system it leaves.\<close>

type_synonym effect = "error option \<times> node"

text \<open>\<open>Path.mkdir(parents=True, exist_ok=True)\<close>.\<close>

fun mkchain :: "path \<Rightarrow> node" where
  "mkchain [] = Dir []"
| "mkchain (c # cs) = Dir [(c, mkchain cs)]"

fun mkdirs :: "path \<Rightarrow> node \<Rightarrow> error + node" where
  "mkdirs [] (File d) = Inl FileExistsError"
| "mkdirs (c # cs) (File d) = Inl NotADirectoryError"
| "mkdirs [] (Dir es) = Inr (Dir es)"
| "mkdirs (c # cs) (Dir es) =
     (case map_of es c of
        None \<Rightarrow> Inr (Dir (es @ [(c, mkchain cs)]))
      | Some ch \<Rightarrow>
          (case mkdirs cs ch of
             Inl e \<Rightarrow> Inl e
           | Inr ch' \<Rightarrow> Inr (Dir (AList.update c ch' es))))"

definition mkdir_p :: "path \<Rightarrow> node \<Rightarrow> effect" where
  "mkdir_p p fs = (case mkdirs p fs of Inl e \<Rightarrow> (Some e, fs) | Inr fs' \<Rightarrow> (None, fs'))"

text \<open>\<open>Path.unlink()\<close>, \<open>shutil.rmtree\<close>, \<open>Path.rmdir()\<close>.\<close>

definition unlink :: "path \<Rightarrow> node \<Rightarrow> effect" where
  "unlink p fs =
     (case lookup fs p of
        None \<Rightarrow> (Some FileNotFoundError, fs)
      | Some (Dir es) \<Rightarrow> (Some IsADirectoryError, fs)
      | Some (File d) \<Rightarrow> (None, store p None fs))"

text \<open>
  \<open>rmtree\<close> on the root deletes everything below it and then fails to remove the root.
\<close>

definition rmtree :: "path \<Rightarrow> node \<Rightarrow> effect" where
  "rmtree p fs =
     (case lookup fs p of
        None \<Rightarrow> (Some FileNotFoundError, fs)
      | Some (File d) \<Rightarrow> (Some NotADirectoryError, fs)
      | Some (Dir es) \<Rightarrow> (if p = [] then (Some OSError, Dir []) else (None, store p None fs)))"

definition rmdir :: "path \<Rightarrow> node \<Rightarrow> effect" where
  "rmdir p fs =
     (case lookup fs p of
        None \<Rightarrow> (Some FileNotFoundError, fs)
      | Some (File d) \<Rightarrow> (Some NotADirectoryError, fs)
      | Some (Dir (e # es)) \<Rightarrow> (Some OSError, fs)
      | Some (Dir []) \<Rightarrow> (if p = [] then (Some OSError, fs) else (None, store p None fs)))"

text \<open>
  \<open>Path.replace\<close> (\<open>rename(2)\<close>): the source must exist, the destination's parent must be
  a directory, a directory cannot be moved below itself, and an existing destination is
  replaced only by a node of its own kind (a directory only when it is empty).
\<close>

definition replace :: "path \<Rightarrow> path \<Rightarrow> node \<Rightarrow> effect" where
  "replace src dst fs =
     (case lookup fs src of
        None \<Rightarrow> (Some FileNotFoundError, fs)
      | Some n \<Rightarrow>
          if src = [] \<or> dst = [] then (Some OSError, fs)
          else (case dir_err fs (parent dst) of
             Some e \<Rightarrow> (Some e, fs)
           | None \<Rightarrow>
               if src = dst then (None, fs)
               else if prefix src dst then (Some OSError, fs)
               else (case (n, lookup fs dst) of
                  (File d, Some (Dir es)) \<Rightarrow> (Some IsADirectoryError, fs)
                | (Dir es, Some (File d)) \<Rightarrow> (Some NotADirectoryError, fs)
                | (Dir es, Some (Dir (e' # es'))) \<Rightarrow> (Some OSError, fs)
                | _ \<Rightarrow> (None, store dst (Some n) (store src None fs)))))"

text \<open>
  \<open>shutil.copy2\<close>: a destination that is a directory stands for the file of the source's
  name inside it; source and destination must differ; the source must be a file.
\<close>

definition copy2 :: "path \<Rightarrow> path \<Rightarrow> node \<Rightarrow> effect" where
  "copy2 src dst fs =
     (let d = (if is_dir fs dst then path_join dst (name_of src) else dst) in
      if exists fs src \<and> src = d then (Some SameFileError, fs)
      else (case lookup fs src of
         None \<Rightarrow> (Some FileNotFoundError, fs)
       | Some (Dir es) \<Rightarrow> (Some IsADirectoryError, fs)
       | Some (File c) \<Rightarrow>
           (case dir_err fs (parent d) of
              Some e \<Rightarrow> (Some e, fs)
            | None \<Rightarrow>
                if is_dir fs d then (Some IsADirectoryError, fs)
                else (None, store d (Some (File c)) fs))))"

subsection \<open>Plan items (lines 69--76)\<close>

record PlanItem =
  src_dir :: path
  src_file :: path
  dst_dir :: path
  dst_file :: path
  action :: string
  reason :: string

subsection \<open>The executor (lines 179--220)\<close>

definition safe_copy :: "path \<Rightarrow> path \<Rightarrow> bool \<Rightarrow> node \<Rightarrow> effect" where
  "safe_copy src dst overwrite fs =
     (case mkdir_p (parent dst) fs of
        (Some e, fs1) \<Rightarrow> (Some e, fs1)
      | (None, fs1) \<Rightarrow>
          if exists fs1 dst then
            if overwrite then
              (case (if is_dir fs1 dst then rmtree dst fs1 else unlink dst fs1) of
                 (Some e, fs2) \<Rightarrow> (Some e, fs2)
               | (None, fs2) \<Rightarrow> copy2 src dst fs2)
            else (Some FileExistsError, fs1)
          else copy2 src dst fs1)"

definition safe_move :: "path \<Rightarrow> path \<Rightarrow> bool \<Rightarrow> node \<Rightarrow> effect" where
  "safe_move src dst overwrite fs =
     (case mkdir_p (parent dst) fs of
        (Some e, fs1) \<Rightarrow> (Some e, fs1)
      | (None, fs1) \<Rightarrow>
          if exists fs1 dst then
            if overwrite then
              (case (if is_dir fs1 dst then rmtree dst fs1 else unlink dst fs1) of
                 (Some e, fs2) \<Rightarrow> (Some e, fs2)
               | (None, fs2) \<Rightarrow> replace src dst fs2)
            else (Some FileExistsError, fs1)
          else replace src dst fs1)"

text \<open>
  Lines 211--217, the removal of an emptied source directory: an exception of \<open>iterdir\<close>
  is not caught, a first entry ends the attempt, and an \<open>OSError\<close> of \<open>rmdir\<close> is
  swallowed.
\<close>

definition remove_empty_src_dir :: "path \<Rightarrow> node \<Rightarrow> effect" where
  "remove_empty_src_dir d fs =
     (case iterdir fs d of
        Inl e \<Rightarrow> (Some e, fs)
      | Inr (x # xs) \<Rightarrow> (None, fs)
      | Inr [] \<Rightarrow>
          (case rmdir d fs of
             (Some e, fs') \<Rightarrow> (if is_OSError e then (None, fs') else (Some e, fs'))
           | (None, fs') \<Rightarrow> (None, fs')))"

fun execute_plan :: "PlanItem list \<Rightarrow> bool \<Rightarrow> bool \<Rightarrow> bool \<Rightarrow> node \<Rightarrow> effect" where
  "execute_plan [] overwrite dry_run verbose fs = (None, fs)"
| "execute_plan (p # ps) overwrite dry_run verbose fs =
     (if dry_run then execute_plan ps overwrite dry_run verbose fs
      else if action p = ''move'' then
        (case safe_move (src_file p) (dst_file p) overwrite fs of
           (Some e, fs1) \<Rightarrow> (Some e, fs1)
         | (None, fs1) \<Rightarrow>
             (case remove_empty_src_dir (src_dir p) fs1 of
                (Some e, fs2) \<Rightarrow> (Some e, fs2)
              | (None, fs2) \<Rightarrow> execute_plan ps overwrite dry_run verbose fs2))
      else
        (case safe_copy (src_file p) (dst_file p) overwrite fs of
           (Some e, fs1) \<Rightarrow> (Some e, fs1)
         | (None, fs1) \<Rightarrow> execute_plan ps overwrite dry_run verbose fs1))"

subsection \<open>Layout matchers (lines 40--41 and 95--128)\<close>

text \<open>
  Both patterns are anchored and of fixed length, and \<open>$\<close> also matches before one final
  newline: a name matches when it, or it without that newline, has the exact form.
\<close>

definition gameid_chars :: string where
  "gameid_chars = ''ABCDEFGHIJKLMNOPQRSTUVWXYZ0123456789''"

definition region_chars :: string where
  "region_chars = ''ABCDEFGHIJKLMNOPQRSTUVWXYZ''"

definition strip_final_newline :: "string \<Rightarrow> string" where
  "strip_final_newline s = (if s \<noteq> [] \<and> last s = CHR 0x0A then butlast s else s)"

definition RE_MCGCP_DIR :: "string \<Rightarrow> string option" where
  "RE_MCGCP_DIR s =
     (let t = strip_final_newline s in
      if length t = 8 \<and> list_all (\<lambda>c. c \<in> set gameid_chars) (take 4 t) \<and> drop 4 t = ''0100''
      then Some (take 4 t) else None)"

definition RE_GCMCE_DIR :: "string \<Rightarrow> (string \<times> string) option" where
  "RE_GCMCE_DIR s =
     (let t = strip_final_newline s in
      if length t = 15 \<and> take 7 t = ''DL-DOL-'' \<and>
         list_all (\<lambda>c. c \<in> set gameid_chars) (take 4 (drop 7 t)) \<and>
         take 1 (drop 11 t) = ''-'' \<and>
         list_all (\<lambda>c. c \<in> set region_chars) (drop 12 t)
      then Some (take 4 (drop 7 t), drop 12 t) else None)"

text \<open>The body of the loop of \<open>scan_mcgcp\<close>: no result or one, for one listed entry.\<close>

definition mcgcp_entry :: "node \<Rightarrow> path \<Rightarrow> (path \<times> path \<times> string) list" where
  "mcgcp_entry fs entry =
     (if \<not> is_dir fs entry then []
      else (case RE_MCGCP_DIR (name_of entry) of
         None \<Rightarrow> []
       | Some gameid \<Rightarrow>
           (let raw = path_join entry (name_of entry @ ''-1.raw'') in
            if exists fs raw then [(entry, raw, gameid)] else [])))"

definition scan_mcgcp :: "path \<Rightarrow> node \<Rightarrow> error + (path \<times> path \<times> string) list" where
  "scan_mcgcp memorycards_dir fs =
     (if \<not> exists fs memorycards_dir then Inr []
      else (case iterdir fs memorycards_dir of
         Inl e \<Rightarrow> Inl e
       | Inr entries \<Rightarrow> Inr (concat (map (mcgcp_entry fs) entries))))"

definition gcmce_entry :: "node \<Rightarrow> path \<Rightarrow> (path \<times> path \<times> string \<times> string) list" where
  "gcmce_entry fs entry =
     (if \<not> is_dir fs entry then []
      else (case RE_GCMCE_DIR (name_of entry) of
         None \<Rightarrow> []
       | Some (gameid, region3) \<Rightarrow>
           (let raw = path_join entry (name_of entry @ ''-1.raw'') in
            if exists fs raw then [(entry, raw, gameid, region3)] else [])))"

definition scan_gcmce :: "path \<Rightarrow> node \<Rightarrow> error + (path \<times> path \<times> string \<times> string) list" where
  "scan_gcmce gc_dir fs =
     (if \<not> exists fs gc_dir then Inr []
      else (case iterdir fs gc_dir of
         Inl e \<Rightarrow> Inl e
       | Inr entries \<Rightarrow> Inr (concat (map (gcmce_entry fs) entries))))"

subsection \<open>The planner (lines 130--171)\<close>

text \<open>The arrow of the reason strings, U+2192, in UTF-8.\<close>

definition arrow :: string where
  "arrow = [CHR 0xE2, CHR 0x86, CHR 0x92]"

text \<open>
  The body of the loop of \<open>plan_mcgcp_to_gcmce\<close>. The region letter is \<open>gameid[-1]\<close>;
  the scanner only yields game IDs of four characters.
\<close>

definition mcgcp_item :: "path \<Rightarrow> table \<Rightarrow> bool \<Rightarrow> path \<times> path \<times> string \<Rightarrow> PlanItem" where
  "mcgcp_item dst_root l2r copy_mode e =
     (case e of (sdir, sfile, gameid) \<Rightarrow>
        (let region_letter = [last gameid];
             region3 = (case l2r (upper region_letter) of Some r \<Rightarrow> r | None \<Rightarrow> ''OTH'');
             dst_dir_name = ''DL-DOL-'' @ gameid @ ''-'' @ region3;
             ddir = path_join dst_root dst_dir_name;
             dfile = path_join ddir (dst_dir_name @ ''-1.raw'')
         in \<lparr>src_dir = sdir, src_file = sfile, dst_dir = ddir, dst_file = dfile,
              action = (if copy_mode then ''copy'' else ''move''),
              reason = ''MCGCP'' @ arrow @ ''GCMCE '' @ gameid @ '' -> '' @ dst_dir_name\<rparr>))"

definition plan_mcgcp_to_gcmce ::
  "path \<Rightarrow> path \<Rightarrow> table \<Rightarrow> bool \<Rightarrow> node \<Rightarrow> error + PlanItem list" where
  "plan_mcgcp_to_gcmce sd_root out_root l2r copy_mode fs =
     (let src_root = path_join sd_root ''MemoryCards'';
          dst_root = path_join (path_join out_root ''MemoryCards'') ''GC''
      in case scan_mcgcp src_root fs of
           Inl e \<Rightarrow> Inl e
         | Inr found \<Rightarrow> Inr (map (mcgcp_item dst_root l2r copy_mode) found))"

definition gcmce_item :: "path \<Rightarrow> bool \<Rightarrow> path \<times> path \<times> string \<times> string \<Rightarrow> PlanItem" where
  "gcmce_item dst_root copy_mode e =
     (case e of (sdir, sfile, gameid, region3) \<Rightarrow>
        (let mcgcp_dirname = gameid @ ''0100'';
             ddir = path_join dst_root mcgcp_dirname;
             dfile = path_join ddir (mcgcp_dirname @ ''-1.raw'')
         in \<lparr>src_dir = sdir, src_file = sfile, dst_dir = ddir, dst_file = dfile,
              action = (if copy_mode then ''copy'' else ''move''),
              reason = ''GCMCE'' @ arrow @ ''MCGCP DL-DOL-'' @ gameid @ ''-'' @ region3 @
                       '' -> '' @ mcgcp_dirname\<rparr>))"

definition plan_gcmce_to_mcgcp ::
  "path \<Rightarrow> path \<Rightarrow> table \<Rightarrow> bool \<Rightarrow> node \<Rightarrow> error + PlanItem list" where
  "plan_gcmce_to_mcgcp sd_root out_root r2l copy_mode fs =
     (let src_root = path_join (path_join sd_root ''MemoryCards'') ''GC'';
          dst_root = path_join out_root ''MemoryCards''
      in case scan_gcmce src_root fs of
           Inl e \<Rightarrow> Inl e
         | Inr found \<Rightarrow> Inr (map (gcmce_item dst_root copy_mode) found))"

subsection \<open>The region map override (lines 82--93)\<close>

text \<open>
  What \<open>json.load\<close> returns. An object is the list of its items in order; Python keeps one
  item per key. A float is \<open>m * 2 ^ e\<close>; only whether it is zero matters here.
\<close>

datatype json =
    JNull | JBool bool | JInt int | JFloat int int | JStr string
  | JArr "json list" | JObj "(string \<times> json) list"

fun truthy :: "json \<Rightarrow> bool" where
  "truthy JNull = False"
| "truthy (JBool b) = b"
| "truthy (JInt i) = (i \<noteq> 0)"
| "truthy (JFloat m e) = (m \<noteq> 0)"
| "truthy (JStr s) = (s \<noteq> [])"
| "truthy (JArr xs) = (xs \<noteq> [])"
| "truthy (JObj kvs) = (kvs \<noteq> [])"

text \<open>\<open>data.get(key)\<close>: only a dict has \<open>get\<close>; a missing key gives \<open>None\<close>.\<close>

fun dict_get :: "json \<Rightarrow> string \<Rightarrow> error + json option" where
  "dict_get (JObj kvs) k = Inr (map_of kvs k)"
| "dict_get v k = Inl AttributeError"

text \<open>\<open>(x or {}).items()\<close>: a falsy value stands for the empty dict; only a dict has \<open>items\<close>.\<close>

definition items_or_empty :: "json option \<Rightarrow> error + (string \<times> json) list" where
  "items_or_empty x =
     (case x of
        None \<Rightarrow> Inr []
      | Some v \<Rightarrow>
          if \<not> truthy v then Inr []
          else (case v of JObj kvs \<Rightarrow> Inr kvs | _ \<Rightarrow> Inl AttributeError))"

text \<open>The loops of lines 89--92: only a string has \<open>upper\<close>.\<close>

fun merge_upper :: "(string \<times> json) list \<Rightarrow> table \<Rightarrow> error + table" where
  "merge_upper [] m = Inr m"
| "merge_upper ((k, v) # kvs) m =
     (case v of
        JStr s \<Rightarrow> merge_upper kvs (m(upper k \<mapsto> upper s))
      | _ \<Rightarrow> Inl AttributeError)"

definition merge_section :: "json \<Rightarrow> string \<Rightarrow> table \<Rightarrow> error + table" where
  "merge_section data key m =
     (case dict_get data key of
        Inl e \<Rightarrow> Inl e
      | Inr x \<Rightarrow> (case items_or_empty x of Inl e \<Rightarrow> Inl e | Inr kvs \<Rightarrow> merge_upper kvs m))"

text \<open>
  \<open>json_load\<close> stands for decoding and parsing the contents of the file (the \<open>json\<close>
  module); it is a parameter of the model.
\<close>

definition load_region_map ::
  "(string \<Rightarrow> error + json) \<Rightarrow> path option \<Rightarrow> node \<Rightarrow> error + (table \<times> table)" where
  "load_region_map json_load path fs =
     (case path of
        None \<Rightarrow> Inr (DEFAULT_REGION3_FROM_LETTER, DEFAULT_LETTER_FROM_REGION3)
      | Some p \<Rightarrow>
          (case dir_err fs (parent p) of
             Some e \<Rightarrow> Inl e
           | None \<Rightarrow>
              (case lookup fs p of
                 None \<Rightarrow> Inl FileNotFoundError
               | Some (Dir es) \<Rightarrow> Inl IsADirectoryError
               | Some (File c) \<Rightarrow>
                  (case json_load c of
                     Inl e \<Rightarrow> Inl e
                   | Inr data \<Rightarrow>
                      (case merge_section data ''letter_to_region3'' DEFAULT_REGION3_FROM_LETTER of
                         Inl e \<Rightarrow> Inl e
                       | Inr l2r \<Rightarrow>
                          (case merge_section data ''region3_to_letter'' DEFAULT_LETTER_FROM_REGION3 of
                             Inl e \<Rightarrow> Inl e
                           | Inr r2l \<Rightarrow> Inr (l2r, r2l)))))))"

subsection \<open>The backup (lines 222--234)\<close>

text \<open>
  \<open>shutil.copytree\<close>: the source is listed, the destination (which must not exist) is
  created with its parents, and the listed entries are copied into it. A destination
  below an existing subdirectory of the source makes the copy descend into itself until
  it fails; the model then reports \<open>ShutilError\<close>. The file system an aborted copy leaves
  behind is not modelled.
\<close>

definition copytree :: "path \<Rightarrow> path \<Rightarrow> node \<Rightarrow> error + node" where
  "copytree src dst fs =
     (case lookup fs src of
        None \<Rightarrow> Inl FileNotFoundError
      | Some (File d) \<Rightarrow> Inl NotADirectoryError
      | Some (Dir es) \<Rightarrow>
          if exists fs dst then Inl FileExistsError
          else (case mkdirs dst fs of
             Inl e \<Rightarrow> Inl e
           | Inr fs1 \<Rightarrow>
               if strict_prefix src dst \<and> is_dir fs (take (Suc (length src)) dst)
               then Inl ShutilError
               else Inr (store dst (Some (Dir es)) fs1)))"

definition do_backup :: "path \<Rightarrow> path \<Rightarrow> bool \<Rightarrow> bool \<Rightarrow> node \<Rightarrow> error + node" where
  "do_backup sd_root backup_dir overwrite dry_run fs =
     (let src = path_join sd_root ''MemoryCards'';
          dst = path_join backup_dir ''MemoryCards.backup''
      in if dry_run then Inr fs
         else (case (if exists fs dst \<and> overwrite
                     then (if is_dir fs dst then rmtree dst fs else unlink dst fs)
                     else (None, fs)) of
            (Some e, fs1) \<Rightarrow> Inl e
          | (None, fs1) \<Rightarrow> copytree src dst fs1))"

subsection \<open>The command line and \<open>main\<close> (lines 236--287)\<close>

text \<open>
  The parsed arguments. Paths are given resolved; an option that is absent or empty is
  \<open>None\<close>. \<open>argparse\<close> sets exactly one of the two direction flags.
\<close>

record args =
  sd_root :: path
  rename_to_gcmce :: bool
  rename_to_mcgcp :: bool
  output_sd_root :: "path option"
  backup_dir :: "path option"
  region_map_json :: "path option"
  force :: bool
  dry_run :: bool
  verbose :: bool

text \<open>
  \<open>main\<close> returns its exit code and the file system it leaves, or the exception that
  ended the run.
\<close>

definition main :: "(string \<Rightarrow> error + json) \<Rightarrow> args \<Rightarrow> node \<Rightarrow> error + (int \<times> node)" where
  "main json_load a fs =
     (if \<not> exists fs (path_join (sd_root a) ''MemoryCards'') then Inr (1, fs)
      else
        (let out_root = (case output_sd_root a of Some p \<Rightarrow> p | None \<Rightarrow> sd_root a);
             copy_mode = (out_root \<noteq> sd_root a)
         in case load_region_map json_load (region_map_json a) fs of
              Inl e \<Rightarrow> Inl e
            | Inr (l2r, r2l) \<Rightarrow>
               (case (case backup_dir a of
                        None \<Rightarrow> Inr fs
                      | Some b \<Rightarrow>
                          (case mkdir_p b fs of
                             (Some e, fs0) \<Rightarrow> Inl e
                           | (None, fs0) \<Rightarrow> do_backup (sd_root a) b (force a) (dry_run a) fs0)) of
                  Inl e \<Rightarrow> Inl e
                | Inr fs1 \<Rightarrow>
                   (case (if rename_to_gcmce a
                          then plan_mcgcp_to_gcmce (sd_root a) out_root l2r copy_mode fs1
                          else plan_gcmce_to_mcgcp (sd_root a) out_root r2l copy_mode fs1) of
                      Inl e \<Rightarrow> Inl e
                    | Inr plan \<Rightarrow>
                       if plan = [] then Inr (0, fs1)
                       else (case execute_plan plan (force a) (dry_run a) (verbose a) fs1 of
                          (Some e, fs2) \<Rightarrow> Inl e
                        | (None, fs2) \<Rightarrow> Inr (0, fs2))))))"

subsection \<open>Example inputs\<close>

definition ex_fs :: node where
  "ex_fs = Dir [(''s'', Dir [(''f'', File ''new'')]), (''d'', Dir [(''g'', File ''old'')])]"

definition ex_item :: PlanItem where
  "ex_item = \<lparr>src_dir = [''s''], src_file = [''s'', ''f''], dst_dir = [''d''],
     dst_file = [''d'', ''g''], action = ''move'', reason = []\<rparr>"


definition ex_mcgcp_fs :: node where
  "ex_mcgcp_fs = Dir [(''sd'', Dir [(''MemoryCards'', Dir
     [(''GAFE0100'', Dir [(''GAFE0100-1.raw'', File ''save'')])])])]"

definition ex_gcmce_fs :: node where
  "ex_gcmce_fs = Dir [(''sd'', Dir [(''MemoryCards'', Dir [(''GC'', Dir
     [(''DL-DOL-GAFE-USA'', Dir [(''DL-DOL-GAFE-USA-1.raw'', File ''save'')])])])])]"

definition ex_mcgcp_fs2 :: node where
  "ex_mcgcp_fs2 = Dir [(''sd'', Dir [(''MemoryCards'', Dir
     [(''GAFE0100'', Dir [(''GAFE0100-1.raw'', File ''a'')]),
      (''GZLQ0100'', Dir [(''GZLQ0100-1.raw'', File ''b'')])])])]"

definition ex_gcmce_fs2 :: node where
  "ex_gcmce_fs2 = Dir [(''sd'', Dir [(''MemoryCards'', Dir [(''GC'', Dir
     [(''DL-DOL-GAFE-USA'', Dir [(''DL-DOL-GAFE-USA-1.raw'', File ''a'')]),
      (''DL-DOL-GAFE-EUR'', Dir [(''DL-DOL-GAFE-EUR-1.raw'', File ''b'')])])])])]"




definition ex_args :: args where
  "ex_args = \<lparr>sd_root = [''sd''], rename_to_gcmce = True, rename_to_mcgcp = False,
     output_sd_root = None, backup_dir = None, region_map_json = None,
     force = False, dry_run = False, verbose = False\<rparr>"

definition ex_dry_args :: args where
  "ex_dry_args = ex_args\<lparr>backup_dir := Some [''bk''], dry_run := True\<rparr>"

definition no_json :: "string \<Rightarrow> error + json" where
  "no_json c = Inl JSONDecodeError"

definition ex_mcgcp_fs_bk :: node where
  "ex_mcgcp_fs_bk = Dir [(''sd'', Dir [(''MemoryCards'', Dir
     [(''GAFE0100'', Dir [(''GAFE0100-1.raw'', File ''save'')])])]), (''bk'', Dir [])]"

definition ex_gcmce_out :: node where
  "ex_gcmce_out = Dir [(''sd'', Dir [(''MemoryCards'', Dir [(''GC'', Dir
     [(''DL-DOL-GAFE-USA'', Dir [(''DL-DOL-GAFE-USA-1.raw'', File ''save'')])])])])]"

definition ex_empty_cards :: node where
  "ex_empty_cards = Dir [(''sd'', Dir [(''MemoryCards'', Dir [])])]"


section \<open>Properties\<close>

subsection \<open>Facts about the file system\<close>

lemma lookup_File: "lookup (File d) p = (if p = [] then Some (File d) else None)"
  by (cases p) auto

lemma is_dir_File [simp]: "is_dir (File d) p = False"
  by (simp add: is_dir_def lookup_File)

lemma is_dir_Nil [simp]: "is_dir (Dir es) [] = True"
  by (simp add: is_dir_def)

lemma is_dir_Cons [simp]:
  "is_dir (Dir es) (c # cs) = (case map_of es c of None \<Rightarrow> False | Some ch \<Rightarrow> is_dir ch cs)"
  by (simp add: is_dir_def split: option.splits)

lemma dir_err_None_iff: "dir_err fs p = None \<longleftrightarrow> is_dir fs p"
  by (induction fs p rule: dir_err.induct) (auto split: option.splits)

lemma lookup_append:
  "lookup fs (p @ q) = (case lookup fs p of None \<Rightarrow> None | Some n \<Rightarrow> lookup n q)"
  by (induction fs p rule: lookup.induct) (auto split: option.splits)

lemma lookup_snoc_Some_dir:
  "lookup fs (p @ [c]) = Some n \<Longrightarrow> \<exists>es. lookup fs p = Some (Dir es) \<and> map_of es c = Some n"
  by (cases "lookup fs p") (auto simp: lookup_append split: option.splits elim: lookup.elims)

lemma lookup_parent_dir:
  assumes "lookup fs p = Some n" "p \<noteq> []"
  shows "is_dir fs (butlast p)"
proof -
  from assms(2) have "p = butlast p @ [last p]" by simp
  with assms(1) have "lookup fs (butlast p @ [last p]) = Some n" by simp
  from lookup_snoc_Some_dir [OF this] show ?thesis by (auto simp: is_dir_def)
qed


lemma lookup_below_file:
  "lookup fs p = Some (File c) \<Longrightarrow> strict_prefix p q \<Longrightarrow> lookup fs q = None"
  by (auto simp: strict_prefix_def prefix_def lookup_append lookup_File split: if_splits)

lemma store_same:
  "p \<noteq> [] \<Longrightarrow> is_dir fs (butlast p) \<Longrightarrow> lookup (store p v fs) p = v"
  unfolding is_dir_def
  by (induction p v fs rule: store.induct)
     (auto simp: update_conv' delete_conv' lookup_File split: option.splits node.splits if_splits)

lemma store_disjoint:
  "\<not> prefix p q \<Longrightarrow> \<not> prefix q p \<Longrightarrow> lookup (store p v fs) q = lookup fs q"
proof (induction p v fs arbitrary: q rule: store.induct)
  case (3 c v es)
  then show ?case by (cases q) (auto simp: update_conv' delete_conv' split: option.splits)
next
  case (4 c c' cs v es)
  then show ?case by (cases q) (auto simp: update_conv' split: option.splits)
qed auto



lemma store_is_dir:
  "\<not> prefix p q \<Longrightarrow> is_dir (store p v fs) q = is_dir fs q"
proof (induction p v fs arbitrary: q rule: store.induct)
  case (3 c v es)
  then show ?case by (cases q) (auto simp: update_conv' delete_conv' split: option.splits)
next
  case (4 c c' cs v es)
  then show ?case by (cases q) (auto simp: update_conv' split: option.splits)
qed auto

lemma mkdirs_existing: "is_dir fs p \<Longrightarrow> mkdirs p fs = Inr fs"
  by (induction p fs rule: mkdirs.induct) (auto simp: update_triv split: option.splits)





subsection \<open>The default tables\<close>

text \<open>
  C2. For every key \<open>L\<close> of the default letter-to-region3 table: if its image is not
  \<open>OTH\<close>, looking the image up in the default region3-to-letter table gives \<open>L\<close> back; if
  its image is \<open>OTH\<close>, then \<open>L\<close> is one of \<open>X\<close>, \<open>Y\<close>, \<open>Z\<close> and the round trip gives \<open>X\<close>.
\<close>

theorem default_region_round_trip:
  "DEFAULT_REGION3_FROM_LETTER L = Some r \<Longrightarrow>
     (r \<noteq> ''OTH'' \<longrightarrow> DEFAULT_LETTER_FROM_REGION3 r = Some L) \<and>
     (r = ''OTH'' \<longrightarrow> L \<in> {''X'', ''Y'', ''Z''} \<and> DEFAULT_LETTER_FROM_REGION3 r = Some ''X'')"
  by (auto simp: DEFAULT_REGION3_FROM_LETTER_def DEFAULT_LETTER_FROM_REGION3_def
      split: if_splits)

theorem default_region_round_trip_witness:
  "DEFAULT_REGION3_FROM_LETTER ''E'' = Some ''USA'' \<and>
   DEFAULT_LETTER_FROM_REGION3 ''USA'' = Some ''E'' \<and>
   DEFAULT_REGION3_FROM_LETTER ''Y'' = Some ''OTH'' \<and>
   DEFAULT_LETTER_FROM_REGION3 ''OTH'' = Some ''X''"
proof -
  have e: "DEFAULT_REGION3_FROM_LETTER ''E'' = Some ''USA''"
    by (simp add: DEFAULT_REGION3_FROM_LETTER_def)
  have y: "DEFAULT_REGION3_FROM_LETTER ''Y'' = Some ''OTH''"
    by (simp add: DEFAULT_REGION3_FROM_LETTER_def)
  from default_region_round_trip [OF e] default_region_round_trip [OF y] e y
  show ?thesis by simp
qed

subsection \<open>Collisions\<close>

lemma exists_parent_is_dir: "is_dir fs [] \<Longrightarrow> exists fs dst \<Longrightarrow> is_dir fs (parent dst)"
  by (cases "dst = []") (auto simp: exists_def parent_def dest: lookup_parent_dir)

lemma mkdir_p_parent_existing:
  "is_dir fs [] \<Longrightarrow> exists fs dst \<Longrightarrow> mkdir_p (parent dst) fs = (None, fs)"
  by (simp add: mkdir_p_def mkdirs_existing exists_parent_is_dir)

lemma safe_move_collision:
  "is_dir fs [] \<Longrightarrow> exists fs dst \<Longrightarrow> safe_move src dst False fs = (Some FileExistsError, fs)"
  by (simp add: safe_move_def mkdir_p_parent_existing)

lemma safe_copy_collision:
  "is_dir fs [] \<Longrightarrow> exists fs dst \<Longrightarrow> safe_copy src dst False fs = (Some FileExistsError, fs)"
  by (simp add: safe_copy_def mkdir_p_parent_existing)

lemma remove_existing:
  assumes "exists fs dst" "dst \<noteq> []"
  shows "(if is_dir fs dst then rmtree dst fs else unlink dst fs) = (None, store dst None fs)"
  using assms by (auto simp: exists_def is_dir_def rmtree_def unlink_def split: node.splits)

lemma safe_move_force:
  "is_dir fs [] \<Longrightarrow> exists fs dst \<Longrightarrow> dst \<noteq> [] \<Longrightarrow>
   safe_move src dst True fs = replace src dst (store dst None fs)"
  by (simp add: safe_move_def mkdir_p_parent_existing remove_existing)

lemma safe_copy_force:
  "is_dir fs [] \<Longrightarrow> exists fs dst \<Longrightarrow> dst \<noteq> [] \<Longrightarrow>
   safe_copy src dst True fs = copy2 src dst (store dst None fs)"
  by (simp add: safe_copy_def mkdir_p_parent_existing remove_existing)

lemma removed_not_exists:
  "exists fs dst \<Longrightarrow> dst \<noteq> [] \<Longrightarrow> \<not> exists (store dst None fs) dst"
  by (auto simp: exists_def store_same dest: lookup_parent_dir)

lemma not_prefix_butlast: "p \<noteq> [] \<Longrightarrow> \<not> prefix p (butlast p)"
  using prefix_length_le [of p "butlast p"] by (cases p) auto

lemma dir_err_is_dir: "is_dir fs p \<Longrightarrow> dir_err fs p = None"
  by (simp add: dir_err_None_iff)

lemma force_facts:
  assumes root: "is_dir fs []" and ex: "exists fs dst"
    and src: "lookup fs src = Some (File c)" and np: "\<not> prefix dst src"
  shows "dst \<noteq> []" "src \<noteq> []" "src \<noteq> dst" "\<not> prefix src dst"
    "lookup (store dst None fs) src = Some (File c)"
    "lookup (store dst None fs) dst = None"
    "is_dir (store dst None fs) (parent dst)"
proof -
  show d: "dst \<noteq> []" using np by auto
  show "src \<noteq> []" using root src by (auto simp: is_dir_def)
  show sd: "src \<noteq> dst" using np by auto
  show ns: "\<not> prefix src dst"
  proof
    assume "prefix src dst"
    with sd have "strict_prefix src dst" by (simp add: strict_prefix_def)
    from lookup_below_file [OF src this] ex show False by (simp add: exists_def)
  qed
  show "lookup (store dst None fs) src = Some (File c)"
    using np ns src by (simp add: store_disjoint)
  show "lookup (store dst None fs) dst = None"
    using removed_not_exists [OF ex d] by (simp add: exists_def)
  show "is_dir (store dst None fs) (parent dst)"
    using d exists_parent_is_dir [OF root ex] by (simp add: parent_def store_is_dir not_prefix_butlast)
qed

lemma safe_move_force_file:
  assumes root: "is_dir fs []" and ex: "exists fs dst"
    and src: "lookup fs src = Some (File c)" and np: "\<not> prefix dst src"
  shows "\<exists>fs'. safe_move src dst True fs = (None, fs') \<and>
           lookup fs' dst = Some (File c) \<and> lookup fs' src = None"
proof -
  note f = force_facts [OF assms]
  let ?fs2 = "store dst None fs"
  let ?fs3 = "store src None ?fs2"
  have mv: "safe_move src dst True fs = (None, store dst (Some (File c)) ?fs3)"
    using f by (simp add: safe_move_force [OF root ex] replace_def dir_err_is_dir)
  have pd: "is_dir ?fs3 (parent dst)"
  proof -
    have "\<not> prefix src (parent dst)"
      using f(4) prefixeq_butlast [of dst] by (auto simp: parent_def dest: prefix_order.trans)
    then show ?thesis using f(7) by (simp add: store_is_dir)
  qed
  have "lookup (store dst (Some (File c)) ?fs3) dst = Some (File c)"
    using f pd by (simp add: store_same parent_def)
  moreover have "lookup ?fs3 src = None"
    using f lookup_parent_dir [of ?fs2 src] by (simp add: store_same)
  then have "lookup (store dst (Some (File c)) ?fs3) src = None"
    using f np by (simp add: store_disjoint)
  ultimately show ?thesis using mv by simp
qed

lemma safe_copy_force_file:
  assumes root: "is_dir fs []" and ex: "exists fs dst"
    and src: "lookup fs src = Some (File c)" and np: "\<not> prefix dst src"
  shows "\<exists>fs'. safe_copy src dst True fs = (None, fs') \<and>
           lookup fs' dst = Some (File c) \<and> lookup fs' src = Some (File c)"
proof -
  note f = force_facts [OF assms]
  let ?fs2 = "store dst None fs"
  have nd: "\<not> is_dir ?fs2 dst" using f by (simp add: is_dir_def)
  have cp: "safe_copy src dst True fs = (None, store dst (Some (File c)) ?fs2)"
    using f nd by (simp add: safe_copy_force [OF root ex] copy2_def dir_err_is_dir exists_def)
  have "lookup (store dst (Some (File c)) ?fs2) dst = Some (File c)"
    using f by (simp add: store_same parent_def)
  moreover have "lookup (store dst (Some (File c)) ?fs2) src = Some (File c)"
    using f np by (simp add: store_disjoint)
  ultimately show ?thesis using cp by simp
qed

text \<open>
  C4. Let the destination file of a plan item exist (in a file system whose root is a
  directory). Without the force flag, \<open>safe_move\<close>, \<open>safe_copy\<close> and the execution of the
  item raise \<open>FileExistsError\<close> and leave the file system, hence the destination, as it
  was. With the force flag the destination is removed first and the move or copy is
  then run on the file system without it; when the source is a file that the
  destination does not contain, the operation succeeds and the destination has the
  source's contents.
\<close>

theorem collision_requires_force:
  "is_dir fs [] \<Longrightarrow> exists fs (dst_file p) \<Longrightarrow>
     safe_move (src_file p) (dst_file p) False fs = (Some FileExistsError, fs) \<and>
     safe_copy (src_file p) (dst_file p) False fs = (Some FileExistsError, fs) \<and>
     execute_plan (p # ps) False False v fs = (Some FileExistsError, fs) \<and>
     (dst_file p \<noteq> [] \<longrightarrow>
        \<not> exists (store (dst_file p) None fs) (dst_file p) \<and>
        safe_move (src_file p) (dst_file p) True fs =
          replace (src_file p) (dst_file p) (store (dst_file p) None fs) \<and>
        safe_copy (src_file p) (dst_file p) True fs =
          copy2 (src_file p) (dst_file p) (store (dst_file p) None fs)) \<and>
     (lookup fs (src_file p) = Some (File c) \<and> \<not> prefix (dst_file p) (src_file p) \<longrightarrow>
        (\<exists>fs'. safe_move (src_file p) (dst_file p) True fs = (None, fs') \<and>
           lookup fs' (dst_file p) = Some (File c) \<and> lookup fs' (src_file p) = None) \<and>
        (\<exists>fs'. safe_copy (src_file p) (dst_file p) True fs = (None, fs') \<and>
           lookup fs' (dst_file p) = Some (File c) \<and> lookup fs' (src_file p) = Some (File c)))"
proof (intro conjI impI)
  assume root: "is_dir fs []" and ex: "exists fs (dst_file p)"
  show "safe_move (src_file p) (dst_file p) False fs = (Some FileExistsError, fs)"
    by (rule safe_move_collision [OF root ex])
  show "safe_copy (src_file p) (dst_file p) False fs = (Some FileExistsError, fs)"
    by (rule safe_copy_collision [OF root ex])
  show "execute_plan (p # ps) False False v fs = (Some FileExistsError, fs)"
    by (simp add: safe_move_collision [OF root ex] safe_copy_collision [OF root ex])
  {
    assume d: "dst_file p \<noteq> []"
    show "\<not> exists (store (dst_file p) None fs) (dst_file p)"
      by (rule removed_not_exists [OF ex d])
    show "safe_move (src_file p) (dst_file p) True fs =
          replace (src_file p) (dst_file p) (store (dst_file p) None fs)"
      by (rule safe_move_force [OF root ex d])
    show "safe_copy (src_file p) (dst_file p) True fs =
          copy2 (src_file p) (dst_file p) (store (dst_file p) None fs)"
      by (rule safe_copy_force [OF root ex d])
  }
  {
    assume "lookup fs (src_file p) = Some (File c) \<and> \<not> prefix (dst_file p) (src_file p)"
    then have s: "lookup fs (src_file p) = Some (File c)"
      and np: "\<not> prefix (dst_file p) (src_file p)" by simp_all
    show "\<exists>fs'. safe_move (src_file p) (dst_file p) True fs = (None, fs') \<and>
           lookup fs' (dst_file p) = Some (File c) \<and> lookup fs' (src_file p) = None"
      by (rule safe_move_force_file [OF root ex s np])
    show "\<exists>fs'. safe_copy (src_file p) (dst_file p) True fs = (None, fs') \<and>
           lookup fs' (dst_file p) = Some (File c) \<and> lookup fs' (src_file p) = Some (File c)"
      by (rule safe_copy_force_file [OF root ex s np])
  }
qed

theorem collision_requires_force_witness:
  "is_dir ex_fs [] \<and> exists ex_fs (dst_file ex_item) \<and>
   lookup ex_fs (src_file ex_item) = Some (File ''new'') \<and>
   \<not> prefix (dst_file ex_item) (src_file ex_item) \<and>
   execute_plan [ex_item] False False False ex_fs = (Some FileExistsError, ex_fs) \<and>
   lookup (snd (execute_plan [ex_item] False False False ex_fs)) [''d'', ''g''] = Some (File ''old'') \<and>
   safe_move [''s'', ''f''] [''d'', ''g''] True ex_fs =
     (None, Dir [(''s'', Dir []), (''d'', Dir [(''g'', File ''new'')])]) \<and>
   safe_copy [''s'', ''f''] [''d'', ''g''] True ex_fs =
     (None, Dir [(''s'', Dir [(''f'', File ''new'')]), (''d'', Dir [(''g'', File ''new'')])])"
proof -
  have h: "is_dir ex_fs []" "exists ex_fs (dst_file ex_item)"
    by (simp_all add: ex_fs_def ex_item_def exists_def)
  have m: "replace [''s'', ''f''] [''d'', ''g''] (store [''d'', ''g''] None ex_fs) =
      (None, Dir [(''s'', Dir []), (''d'', Dir [(''g'', File ''new'')])])"
    by (simp add: ex_fs_def replace_def parent_def)
  have c: "copy2 [''s'', ''f''] [''d'', ''g''] (store [''d'', ''g''] None ex_fs) =
      (None, Dir [(''s'', Dir [(''f'', File ''new'')]), (''d'', Dir [(''g'', File ''new'')])])"
    by (simp add: ex_fs_def copy2_def parent_def exists_def)
  have s: "lookup ex_fs (src_file ex_item) = Some (File ''new'')"
    "\<not> prefix (dst_file ex_item) (src_file ex_item)"
    "lookup ex_fs [''d'', ''g''] = Some (File ''old'')"
    by (simp_all add: ex_fs_def ex_item_def)
  from collision_requires_force [OF h, of "[]" False "''new''"] h m c s
  show ?thesis by (simp add: ex_item_def)
qed

subsection \<open>Parent directories at a collision\<close>









subsection \<open>Moves and the emptied source directory\<close>










subsection \<open>Names and paths of the planner\<close>

lemma split_slash_plain: "CHR ''/'' \<notin> set s \<Longrightarrow> split_slash s = [s]"
  by (induction s) auto

lemma path_join_plain:
  "CHR ''/'' \<notin> set s \<Longrightarrow> s \<noteq> [] \<Longrightarrow> s \<noteq> ''.'' \<Longrightarrow> path_join p s = p @ [s]"
  by (cases s) (auto simp: path_join_def parts_def split_slash_plain)

lemma path_join_MemoryCards [simp]: "path_join p ''MemoryCards'' = p @ [''MemoryCards'']"
  by (simp add: path_join_plain)

lemma path_join_GC [simp]: "path_join p ''GC'' = p @ [''GC'']"
  by (simp add: path_join_plain)

lemma lookup_append_Some: "lookup fs p = Some n \<Longrightarrow> lookup fs (p @ q) = lookup n q"
  by (simp add: lookup_append)

lemma name_of_snoc [simp]: "name_of (p @ [c]) = c"
  by (simp add: name_of_def)

lemma slash_not_gameid: "CHR ''/'' \<notin> set gameid_chars" "CHR ''.'' \<notin> set gameid_chars"
  by (simp_all add: gameid_chars_def)

lemma upper_gameid_chars: "list_all (\<lambda>c. upper_char c = c) gameid_chars"
  by code_simp

lemma upper_gameid_char: "c \<in> set gameid_chars \<Longrightarrow> upper_char c = c"
  using upper_gameid_chars by (simp add: list_all_iff)

lemma RE_MCGCP_DIR_Some:
  assumes "RE_MCGCP_DIR nm = Some g"
  shows "length g = 4" "set g \<subseteq> set gameid_chars"
    "nm = g @ ''0100'' \<or> nm = g @ ''0100'' @ [CHR 0x0A]"
proof -
  let ?t = "strip_final_newline nm"
  from assms have t: "length ?t = 8" "list_all (\<lambda>c. c \<in> set gameid_chars) (take 4 ?t)"
    "drop 4 ?t = ''0100''" "g = take 4 ?t"
    by (auto simp: RE_MCGCP_DIR_def Let_def split: if_splits)
  then show "length g = 4" by simp
  from t show "set g \<subseteq> set gameid_chars" by (auto simp: list_all_iff)
  from t have "?t = g @ ''0100''" by (metis append_take_drop_id)
  moreover have "nm = ?t \<or> nm = ?t @ [CHR 0x0A]"
    by (auto simp: strip_final_newline_def) (metis append_butlast_last_id)
  ultimately show "nm = g @ ''0100'' \<or> nm = g @ ''0100'' @ [CHR 0x0A]" by auto
qed

lemma RE_GCMCE_DIR_Some:
  assumes "RE_GCMCE_DIR nm = Some (g, r)"
  shows "length g = 4" "set g \<subseteq> set gameid_chars"
  using assms by (auto simp: RE_GCMCE_DIR_def Let_def list_all_iff split: if_splits)

lemma gameid_plain:
  assumes "length g = 4" "set g \<subseteq> set gameid_chars"
  shows "CHR ''/'' \<notin> set g"
  using assms slash_not_gameid by auto

lemma raw_name_plain:
  assumes "RE_MCGCP_DIR nm = Some g"
  shows "path_join p (nm @ ''-1.raw'') = p @ [nm @ ''-1.raw'']"
proof -
  from RE_MCGCP_DIR_Some [OF assms] have "CHR ''/'' \<notin> set nm"
    using slash_not_gameid by auto
  then show ?thesis by (simp add: path_join_plain)
qed

lemma scan_mcgcp_entry:
  assumes "scan_mcgcp dir fs = Inr found" "(sdir, sfile, g) \<in> set found"
  shows "\<exists>nm. sdir = dir @ [nm] \<and> RE_MCGCP_DIR nm = Some g \<and> sfile = sdir @ [nm @ ''-1.raw'']"
proof -
  from assms obtain e where "(sdir, sfile, g) \<in> set (mcgcp_entry fs (dir @ [e]))"
    by (auto simp: scan_mcgcp_def iterdir_def split: if_splits option.splits node.splits)
  then have "RE_MCGCP_DIR e = Some g" "sdir = dir @ [e]"
    "sfile = path_join (dir @ [e]) (e @ ''-1.raw'')"
    by (auto simp: mcgcp_entry_def Let_def split: if_splits option.splits)
  then show ?thesis by (simp add: raw_name_plain)
qed

text \<open>
  C7. Every item planned by \<open>plan_mcgcp_to_gcmce\<close> comes from a source directory whose name
  matches the MCGCP pattern with a game ID \<open>g\<close> of four characters, and its destination
  directory and file are named \<open>DL-DOL-g-r\<close>, where \<open>r\<close> is \<open>OTH\<close> when the fourth character
  of \<open>g\<close> is not a key of the letter-to-region3 table in use, and the table's value for that
  character otherwise.
\<close>

theorem mcgcp_region_code:
  "plan_mcgcp_to_gcmce sd out l2r cm fs = Inr plan \<Longrightarrow> it \<in> set plan \<Longrightarrow>
     \<exists>g r. RE_MCGCP_DIR (name_of (src_dir it)) = Some g \<and> length g = 4 \<and>
       (case l2r [g ! 3] of None \<Rightarrow> r = ''OTH'' | Some v \<Rightarrow> r = v) \<and>
       dst_dir it = path_join (out @ [''MemoryCards'', ''GC'']) (''DL-DOL-'' @ g @ ''-'' @ r) \<and>
       dst_file it = path_join (dst_dir it) (''DL-DOL-'' @ g @ ''-'' @ r @ ''-1.raw'')"
proof -
  assume pl: "plan_mcgcp_to_gcmce sd out l2r cm fs = Inr plan" and it: "it \<in> set plan"
  from pl obtain found where sc: "scan_mcgcp (sd @ [''MemoryCards'']) fs = Inr found"
    and plan: "plan = map (mcgcp_item (out @ [''MemoryCards'', ''GC'']) l2r cm) found"
    by (auto simp: plan_mcgcp_to_gcmce_def split: sum.splits)
  from it plan obtain sdir sfile g where f: "(sdir, sfile, g) \<in> set found"
    and i: "it = mcgcp_item (out @ [''MemoryCards'', ''GC'']) l2r cm (sdir, sfile, g)"
    by auto
  from scan_mcgcp_entry [OF sc f] obtain nm where nm: "sdir = (sd @ [''MemoryCards'']) @ [nm]"
    and re: "RE_MCGCP_DIR nm = Some g" by blast
  note g = RE_MCGCP_DIR_Some [OF re]
  from g(1) have "g \<noteq> []" by auto
  with g(1) have l: "last g = g ! 3" by (simp add: last_conv_nth)
  from g(1) have "g ! 3 \<in> set g" by simp
  with g(2) have u: "upper [g ! 3] = [g ! 3]" by (auto simp: upper_def upper_gameid_char)
  have s: "name_of sdir = nm" unfolding nm by (simp add: name_of_def)
  show ?thesis
    apply (rule exI [of _ g])
    apply (rule exI [of _ "case l2r [g ! 3] of None \<Rightarrow> ''OTH'' | Some v \<Rightarrow> v"])
    using re g(1) by (simp add: s i mcgcp_item_def Let_def l u split: option.splits)
qed

theorem mcgcp_region_code_witness:
  "\<exists>i1 i2.
     plan_mcgcp_to_gcmce [''sd''] [''sd''] DEFAULT_REGION3_FROM_LETTER False ex_mcgcp_fs2 =
       Inr [i1, i2] \<and> i2 \<in> set [i1, i2] \<and>
     RE_MCGCP_DIR (name_of (src_dir i1)) = Some ''GAFE'' \<and>
     DEFAULT_REGION3_FROM_LETTER ''E'' = Some ''USA'' \<and>
     dst_dir i1 = [''sd'', ''MemoryCards'', ''GC'', ''DL-DOL-GAFE-USA''] \<and>
     RE_MCGCP_DIR (name_of (src_dir i2)) = Some ''GZLQ'' \<and>
     DEFAULT_REGION3_FROM_LETTER ''Q'' = None \<and>
     dst_dir i2 = [''sd'', ''MemoryCards'', ''GC'', ''DL-DOL-GZLQ-OTH''] \<and>
     dst_file i2 = [''sd'', ''MemoryCards'', ''GC'', ''DL-DOL-GZLQ-OTH'', ''DL-DOL-GZLQ-OTH-1.raw'']"
proof -
  let ?P = "plan_mcgcp_to_gcmce [''sd''] [''sd''] DEFAULT_REGION3_FROM_LETTER False ex_mcgcp_fs2"
  have v: "map_sum id (map (\<lambda>i. (name_of (src_dir i), dst_dir i, dst_file i))) ?P =
      Inr [(''GAFE0100'', [''sd'', ''MemoryCards'', ''GC'', ''DL-DOL-GAFE-USA''],
              [''sd'', ''MemoryCards'', ''GC'', ''DL-DOL-GAFE-USA'', ''DL-DOL-GAFE-USA-1.raw'']),
           (''GZLQ0100'', [''sd'', ''MemoryCards'', ''GC'', ''DL-DOL-GZLQ-OTH''],
              [''sd'', ''MemoryCards'', ''GC'', ''DL-DOL-GZLQ-OTH'', ''DL-DOL-GZLQ-OTH-1.raw''])]"
    by code_simp
  then obtain i1 i2 where p: "?P = Inr [i1, i2]"
    and i: "name_of (src_dir i1) = ''GAFE0100''"
      "dst_dir i1 = [''sd'', ''MemoryCards'', ''GC'', ''DL-DOL-GAFE-USA'']"
      "name_of (src_dir i2) = ''GZLQ0100''"
      "dst_dir i2 = [''sd'', ''MemoryCards'', ''GC'', ''DL-DOL-GZLQ-OTH'']"
      "dst_file i2 = [''sd'', ''MemoryCards'', ''GC'', ''DL-DOL-GZLQ-OTH'', ''DL-DOL-GZLQ-OTH-1.raw'']"
    by (cases ?P) auto
  have m: "i2 \<in> set [i1, i2]" by simp
  have r: "RE_MCGCP_DIR ''GAFE0100'' = Some ''GAFE''" "RE_MCGCP_DIR ''GZLQ0100'' = Some ''GZLQ''"
    "DEFAULT_REGION3_FROM_LETTER ''E'' = Some ''USA''" "DEFAULT_REGION3_FROM_LETTER ''Q'' = None"
    by code_simp+
  from mcgcp_region_code [OF p m] p m i r show ?thesis by simp
qed

lemma mcgcp_name_plain:
  assumes "RE_GCMCE_DIR nm = Some (g, r)"
  shows "path_join p (g @ ''0100'') = p @ [g @ ''0100'']"
    "path_join p (g @ ''0100-1.raw'') = p @ [g @ ''0100-1.raw'']"
proof -
  from RE_GCMCE_DIR_Some [OF assms] have "CHR ''/'' \<notin> set g"
    using slash_not_gameid by auto
  then show "path_join p (g @ ''0100'') = p @ [g @ ''0100'']"
    "path_join p (g @ ''0100-1.raw'') = p @ [g @ ''0100-1.raw'']"
    by (simp_all add: path_join_plain)
qed

lemma scan_gcmce_entry:
  assumes "scan_gcmce dir fs = Inr found" "(sdir, sfile, g, r) \<in> set found"
  shows "\<exists>nm. sdir = dir @ [nm] \<and> RE_GCMCE_DIR nm = Some (g, r)"
proof -
  from assms obtain e where "(sdir, sfile, g, r) \<in> set (gcmce_entry fs (dir @ [e]))"
    by (auto simp: scan_gcmce_def iterdir_def split: if_splits option.splits node.splits)
  then show ?thesis
    by (auto simp: gcmce_entry_def Let_def split: if_splits option.splits)
qed

lemma gcmce_plan_item:
  assumes "plan_gcmce_to_mcgcp sd out r2l cm fs = Inr plan" "it \<in> set plan"
  shows "\<exists>g r. RE_GCMCE_DIR (name_of (src_dir it)) = Some (g, r) \<and>
           dst_dir it = out @ [''MemoryCards'', g @ ''0100''] \<and>
           dst_file it = out @ [''MemoryCards'', g @ ''0100'', g @ ''0100-1.raw'']"
proof -
  from assms(1) obtain found where sc: "scan_gcmce (sd @ [''MemoryCards'', ''GC'']) fs = Inr found"
    and plan: "plan = map (gcmce_item (out @ [''MemoryCards'']) cm) found"
    by (auto simp: plan_gcmce_to_mcgcp_def split: sum.splits)
  from assms(2) plan obtain sdir sfile g r where f: "(sdir, sfile, g, r) \<in> set found"
    and i: "it = gcmce_item (out @ [''MemoryCards'']) cm (sdir, sfile, g, r)"
    by auto
  from scan_gcmce_entry [OF sc f] obtain nm
    where nm: "sdir = (sd @ [''MemoryCards'', ''GC'']) @ [nm]"
    and re: "RE_GCMCE_DIR nm = Some (g, r)" by blast
  have s: "name_of sdir = nm" unfolding nm by (simp add: name_of_def)
  have a: "(g @ ''0100'') @ ''-1.raw'' = g @ ''0100-1.raw''" by simp
  show ?thesis
    apply (rule exI [of _ g])
    apply (rule exI [of _ r])
    using re mcgcp_name_plain [OF re]
    by (simp add: s i gcmce_item_def Let_def a del: append_assoc)
qed

text \<open>
  C9. \<open>plan_gcmce_to_mcgcp\<close> does not depend on the region3-to-letter table. Every item it
  plans comes from a directory whose name matches the GCMCE pattern with a game ID \<open>g\<close> and a
  region code \<open>r\<close>, and its destination is \<open>MemoryCards/g0100/g0100-1.raw\<close> under the output
  root, whatever \<open>r\<close> is: two items whose source names carry the same game ID have the same
  destination directory and file.
\<close>

theorem gcmce_destination_from_gameid_only:
  "plan_gcmce_to_mcgcp sd out r2l cm fs = plan_gcmce_to_mcgcp sd out r2l' cm fs \<and>
   (plan_gcmce_to_mcgcp sd out r2l cm fs = Inr plan \<longrightarrow>
      (\<forall>it \<in> set plan. \<exists>g r. RE_GCMCE_DIR (name_of (src_dir it)) = Some (g, r) \<and>
           dst_dir it = out @ [''MemoryCards'', g @ ''0100''] \<and>
           dst_file it = out @ [''MemoryCards'', g @ ''0100'', g @ ''0100-1.raw'']) \<and>
      (\<forall>it1 \<in> set plan. \<forall>it2 \<in> set plan.
         map_option fst (RE_GCMCE_DIR (name_of (src_dir it1))) =
         map_option fst (RE_GCMCE_DIR (name_of (src_dir it2))) \<longrightarrow>
         dst_dir it1 = dst_dir it2 \<and> dst_file it1 = dst_file it2))"
proof (intro conjI impI ballI)
  show "plan_gcmce_to_mcgcp sd out r2l cm fs = plan_gcmce_to_mcgcp sd out r2l' cm fs"
    by (simp add: plan_gcmce_to_mcgcp_def)
next
  fix it
  assume "plan_gcmce_to_mcgcp sd out r2l cm fs = Inr plan" "it \<in> set plan"
  then show "\<exists>g r. RE_GCMCE_DIR (name_of (src_dir it)) = Some (g, r) \<and>
           dst_dir it = out @ [''MemoryCards'', g @ ''0100''] \<and>
           dst_file it = out @ [''MemoryCards'', g @ ''0100'', g @ ''0100-1.raw'']"
    by (rule gcmce_plan_item)
next
  fix it1 it2
  assume pl: "plan_gcmce_to_mcgcp sd out r2l cm fs = Inr plan"
    and i: "it1 \<in> set plan" "it2 \<in> set plan"
    and eq: "map_option fst (RE_GCMCE_DIR (name_of (src_dir it1))) =
         map_option fst (RE_GCMCE_DIR (name_of (src_dir it2)))"
  from gcmce_plan_item [OF pl i(1)] gcmce_plan_item [OF pl i(2)] eq
  show "dst_dir it1 = dst_dir it2" by auto
  from gcmce_plan_item [OF pl i(1)] gcmce_plan_item [OF pl i(2)] eq
  show "dst_file it1 = dst_file it2" by auto
qed

theorem gcmce_destination_from_gameid_only_witness:
  "\<exists>i1 i2.
     plan_gcmce_to_mcgcp [''sd''] [''sd''] DEFAULT_LETTER_FROM_REGION3 False ex_gcmce_fs2 =
       Inr [i1, i2] \<and>
     plan_gcmce_to_mcgcp [''sd''] [''sd''] Map.empty False ex_gcmce_fs2 = Inr [i1, i2] \<and>
     RE_GCMCE_DIR (name_of (src_dir i1)) = Some (''GAFE'', ''USA'') \<and>
     RE_GCMCE_DIR (name_of (src_dir i2)) = Some (''GAFE'', ''EUR'') \<and>
     dst_dir i1 = [''sd'', ''MemoryCards'', ''GAFE0100''] \<and> dst_dir i2 = dst_dir i1 \<and>
     dst_file i1 = [''sd'', ''MemoryCards'', ''GAFE0100'', ''GAFE0100-1.raw''] \<and>
     dst_file i2 = dst_file i1"
proof -
  let ?P = "plan_gcmce_to_mcgcp [''sd''] [''sd''] DEFAULT_LETTER_FROM_REGION3 False ex_gcmce_fs2"
  have v: "map_sum id (map (\<lambda>i. (name_of (src_dir i), dst_dir i, dst_file i))) ?P =
      Inr [(''DL-DOL-GAFE-USA'', [''sd'', ''MemoryCards'', ''GAFE0100''],
              [''sd'', ''MemoryCards'', ''GAFE0100'', ''GAFE0100-1.raw'']),
           (''DL-DOL-GAFE-EUR'', [''sd'', ''MemoryCards'', ''GAFE0100''],
              [''sd'', ''MemoryCards'', ''GAFE0100'', ''GAFE0100-1.raw''])]"
    by code_simp
  then obtain i1 i2 where p: "?P = Inr [i1, i2]"
    and i: "name_of (src_dir i1) = ''DL-DOL-GAFE-USA''"
      "name_of (src_dir i2) = ''DL-DOL-GAFE-EUR''"
      "dst_dir i1 = [''sd'', ''MemoryCards'', ''GAFE0100'']"
      "dst_file i1 = [''sd'', ''MemoryCards'', ''GAFE0100'', ''GAFE0100-1.raw'']"
    by (cases ?P) auto
  have r: "RE_GCMCE_DIR ''DL-DOL-GAFE-USA'' = Some (''GAFE'', ''USA'')"
    "RE_GCMCE_DIR ''DL-DOL-GAFE-EUR'' = Some (''GAFE'', ''EUR'')"
    by code_simp+
  note t = gcmce_destination_from_gameid_only
    [of "[''sd'']" "[''sd'']" DEFAULT_LETTER_FROM_REGION3 False ex_gcmce_fs2 Map.empty "[i1, i2]"]
  have q: "plan_gcmce_to_mcgcp [''sd''] [''sd''] Map.empty False ex_gcmce_fs2 = Inr [i1, i2]"
    using t [THEN conjunct1] p by simp
  note c = t [THEN conjunct2, THEN mp, OF p, THEN conjunct2, rule_format, of i2 i1]
  have "map_option fst (RE_GCMCE_DIR (name_of (src_dir i2))) =
      map_option fst (RE_GCMCE_DIR (name_of (src_dir i1)))"
    by (simp add: i r)
  then have e: "dst_dir i2 = dst_dir i1" "dst_file i2 = dst_file i1"
    using c by simp_all
  show ?thesis
    apply (rule exI [of _ i1])
    apply (rule exI [of _ i2])
    using p q i r e by simp
qed

subsection \<open>The documented examples\<close>

lemma RE_MCGCP_DIR_GAFE: "RE_MCGCP_DIR ''GAFE0100'' = Some ''GAFE''"
  by code_simp

lemma RE_GCMCE_DIR_GAFE: "RE_GCMCE_DIR ''DL-DOL-GAFE-USA'' = Some (''GAFE'', ''USA'')"
  by code_simp

lemma default_region_E: "DEFAULT_REGION3_FROM_LETTER (upper ''E'') = Some ''USA''"
  by code_simp

lemma path_join_examples:
  "path_join p ''GAFE0100-1.raw'' = p @ [''GAFE0100-1.raw'']"
  "path_join p ''DL-DOL-GAFE-USA'' = p @ [''DL-DOL-GAFE-USA'']"
  "path_join p ''DL-DOL-GAFE-USA-1.raw'' = p @ [''DL-DOL-GAFE-USA-1.raw'']"
  "path_join p ''GAFE0100'' = p @ [''GAFE0100'']"
  by (simp_all add: path_join_plain)

lemma plan_mcgcp_example:
  assumes h: "lookup fs (sd @ [''MemoryCards'']) =
      Some (Dir [(''GAFE0100'', Dir [(''GAFE0100-1.raw'', f)])])"
  shows "\<exists>it. plan_mcgcp_to_gcmce sd out DEFAULT_REGION3_FROM_LETTER cm fs = Inr [it] \<and>
        src_file it = sd @ [''MemoryCards'', ''GAFE0100'', ''GAFE0100-1.raw''] \<and>
        dst_file it =
          out @ [''MemoryCards'', ''GC'', ''DL-DOL-GAFE-USA'', ''DL-DOL-GAFE-USA-1.raw'']"
proof -
  let ?mc = "sd @ [''MemoryCards'']"
  let ?e = "sd @ [''MemoryCards'', ''GAFE0100'']"
  have e: "lookup fs ?e = Some (Dir [(''GAFE0100-1.raw'', f)])"
    using lookup_append_Some [OF h, of "[''GAFE0100'']"] by simp
  have r: "lookup fs (sd @ [''MemoryCards'', ''GAFE0100'', ''GAFE0100-1.raw'']) = Some f"
    using lookup_append_Some [OF h, of "[''GAFE0100'', ''GAFE0100-1.raw'']"] by simp
  have en: "mcgcp_entry fs ?e =
      [(?e, sd @ [''MemoryCards'', ''GAFE0100'', ''GAFE0100-1.raw''], ''GAFE'')]"
    using e r
    by (simp add: mcgcp_entry_def is_dir_def exists_def name_of_def RE_MCGCP_DIR_GAFE
        path_join_examples)
  have sc: "scan_mcgcp ?mc fs =
      Inr [(?e, sd @ [''MemoryCards'', ''GAFE0100'', ''GAFE0100-1.raw''], ''GAFE'')]"
    using h en by (simp add: scan_mcgcp_def exists_def iterdir_def)
  show ?thesis
    using default_region_E
    by (simp add: plan_mcgcp_to_gcmce_def sc mcgcp_item_def Let_def path_join_examples)
qed

lemma plan_gcmce_example:
  assumes h: "lookup fs (sd @ [''MemoryCards'', ''GC'']) =
      Some (Dir [(''DL-DOL-GAFE-USA'', Dir [(''DL-DOL-GAFE-USA-1.raw'', f)])])"
  shows "\<exists>it. plan_gcmce_to_mcgcp sd out r2l cm fs = Inr [it] \<and>
        src_file it =
          sd @ [''MemoryCards'', ''GC'', ''DL-DOL-GAFE-USA'', ''DL-DOL-GAFE-USA-1.raw''] \<and>
        dst_file it = out @ [''MemoryCards'', ''GAFE0100'', ''GAFE0100-1.raw'']"
proof -
  let ?gc = "sd @ [''MemoryCards'', ''GC'']"
  let ?e = "sd @ [''MemoryCards'', ''GC'', ''DL-DOL-GAFE-USA'']"
  let ?r = "sd @ [''MemoryCards'', ''GC'', ''DL-DOL-GAFE-USA'', ''DL-DOL-GAFE-USA-1.raw'']"
  have e: "lookup fs ?e = Some (Dir [(''DL-DOL-GAFE-USA-1.raw'', f)])"
    using lookup_append_Some [OF h, of "[''DL-DOL-GAFE-USA'']"] by simp
  have r: "lookup fs ?r = Some f"
    using lookup_append_Some [OF h, of "[''DL-DOL-GAFE-USA'', ''DL-DOL-GAFE-USA-1.raw'']"]
    by simp
  have en: "gcmce_entry fs ?e = [(?e, ?r, ''GAFE'', ''USA'')]"
    using e r
    by (simp add: gcmce_entry_def is_dir_def exists_def name_of_def RE_GCMCE_DIR_GAFE
        path_join_examples)
  have sc: "scan_gcmce ?gc fs = Inr [(?e, ?r, ''GAFE'', ''USA'')]"
    using h en by (simp add: scan_gcmce_def exists_def iterdir_def)
  show ?thesis
    by (simp add: plan_gcmce_to_mcgcp_def sc gcmce_item_def Let_def path_join_examples)
qed

text \<open>
  C3. With the default region map, a source tree whose \<open>MemoryCards\<close> directory holds
  exactly \<open>GAFE0100/GAFE0100-1.raw\<close> gives a plan of exactly one item, with destination file
  \<open>MemoryCards/GC/DL-DOL-GAFE-USA/DL-DOL-GAFE-USA-1.raw\<close> under the output root; a tree whose
  \<open>MemoryCards/GC\<close> directory holds exactly \<open>DL-DOL-GAFE-USA/DL-DOL-GAFE-USA-1.raw\<close> gives a
  plan of exactly one item, with destination file \<open>MemoryCards/GAFE0100/GAFE0100-1.raw\<close>.
\<close>

theorem planner_documented_examples:
  "(lookup fs (sd @ [''MemoryCards'']) =
      Some (Dir [(''GAFE0100'', Dir [(''GAFE0100-1.raw'', f)])]) \<longrightarrow>
     (\<exists>it. plan_mcgcp_to_gcmce sd out DEFAULT_REGION3_FROM_LETTER cm fs = Inr [it] \<and>
        src_file it = sd @ [''MemoryCards'', ''GAFE0100'', ''GAFE0100-1.raw''] \<and>
        dst_file it =
          out @ [''MemoryCards'', ''GC'', ''DL-DOL-GAFE-USA'', ''DL-DOL-GAFE-USA-1.raw''])) \<and>
   (lookup fs' (sd @ [''MemoryCards'', ''GC'']) =
      Some (Dir [(''DL-DOL-GAFE-USA'', Dir [(''DL-DOL-GAFE-USA-1.raw'', f)])]) \<longrightarrow>
     (\<exists>it. plan_gcmce_to_mcgcp sd out r2l cm fs' = Inr [it] \<and>
        src_file it =
          sd @ [''MemoryCards'', ''GC'', ''DL-DOL-GAFE-USA'', ''DL-DOL-GAFE-USA-1.raw''] \<and>
        dst_file it = out @ [''MemoryCards'', ''GAFE0100'', ''GAFE0100-1.raw'']))"
  using plan_mcgcp_example [of fs sd f out cm] plan_gcmce_example [of fs' sd f out r2l cm]
  by blast

theorem planner_documented_examples_witness:
  "lookup ex_mcgcp_fs ([''sd''] @ [''MemoryCards'']) =
      Some (Dir [(''GAFE0100'', Dir [(''GAFE0100-1.raw'', File ''save'')])]) \<and>
   lookup ex_gcmce_fs ([''sd''] @ [''MemoryCards'', ''GC'']) =
      Some (Dir [(''DL-DOL-GAFE-USA'', Dir [(''DL-DOL-GAFE-USA-1.raw'', File ''save'')])]) \<and>
   (\<exists>it. plan_mcgcp_to_gcmce [''sd''] [''out''] DEFAULT_REGION3_FROM_LETTER True ex_mcgcp_fs =
       Inr [it] \<and>
     dst_file it = [''out'', ''MemoryCards'', ''GC'', ''DL-DOL-GAFE-USA'', ''DL-DOL-GAFE-USA-1.raw'']) \<and>
   (\<exists>it. plan_gcmce_to_mcgcp [''sd''] [''out''] DEFAULT_LETTER_FROM_REGION3 True ex_gcmce_fs =
       Inr [it] \<and>
     dst_file it = [''out'', ''MemoryCards'', ''GAFE0100'', ''GAFE0100-1.raw''])"
proof -
  have a: "lookup ex_mcgcp_fs ([''sd''] @ [''MemoryCards'']) =
      Some (Dir [(''GAFE0100'', Dir [(''GAFE0100-1.raw'', File ''save'')])])"
    by (simp add: ex_mcgcp_fs_def)
  have b: "lookup ex_gcmce_fs ([''sd''] @ [''MemoryCards'', ''GC'']) =
      Some (Dir [(''DL-DOL-GAFE-USA'', Dir [(''DL-DOL-GAFE-USA-1.raw'', File ''save'')])])"
    by (simp add: ex_gcmce_fs_def)
  from planner_documented_examples
    [of ex_mcgcp_fs "[''sd'']" "File ''save''" "[''out'']" True ex_gcmce_fs
      DEFAULT_LETTER_FROM_REGION3] a b
  show ?thesis by auto
qed

subsection \<open>The region map override\<close>














subsection \<open>Exit codes\<close>

lemma main_missing:
  "\<not> exists fs (sd_root a @ [''MemoryCards'']) \<Longrightarrow> main jl a fs = Inr (1, fs)"
  by (simp add: main_def)

lemma main_present:
  "exists fs (sd_root a @ [''MemoryCards'']) \<Longrightarrow> main jl a fs = Inr (code, fs') \<Longrightarrow> code = 0"
  by (auto simp: main_def Let_def split: sum.splits prod.splits option.splits if_splits)

lemma main_nothing_to_do:
  assumes "exists fs (sd_root a @ [''MemoryCards''])" "region_map_json a = None"
    "backup_dir a = None"
    "if rename_to_gcmce a then scan_mcgcp (sd_root a @ [''MemoryCards'']) fs = Inr []
     else scan_gcmce (sd_root a @ [''MemoryCards'', ''GC'']) fs = Inr []"
  shows "main jl a fs = Inr (0, fs)"
  using assms
  by (auto simp: main_def Let_def load_region_map_def plan_mcgcp_to_gcmce_def
      plan_gcmce_to_mcgcp_def split: if_splits)

text \<open>
  C8. \<open>main\<close> returns 1, without touching the file system, when \<open>MemoryCards\<close> does not exist
  under the source root. Whenever \<open>main\<close> returns at all, its exit code is 1 exactly in that
  case and 0 otherwise; in particular it returns 0 when nothing matches and nothing is done.
\<close>

theorem main_exit_code:
  "(\<not> exists fs (sd_root a @ [''MemoryCards'']) \<longrightarrow> main jl a fs = Inr (1, fs)) \<and>
   (main jl a fs = Inr (code, fs') \<longrightarrow>
      (code = 1 \<longleftrightarrow> \<not> exists fs (sd_root a @ [''MemoryCards''])) \<and>
      (exists fs (sd_root a @ [''MemoryCards'']) \<longrightarrow> code = 0)) \<and>
   (exists fs (sd_root a @ [''MemoryCards'']) \<and> region_map_json a = None \<and>
    backup_dir a = None \<and>
    (if rename_to_gcmce a then scan_mcgcp (sd_root a @ [''MemoryCards'']) fs = Inr []
     else scan_gcmce (sd_root a @ [''MemoryCards'', ''GC'']) fs = Inr []) \<longrightarrow>
      main jl a fs = Inr (0, fs))"
  using main_missing [of fs a jl] main_present [of fs a jl code fs']
    main_nothing_to_do [of fs a jl]
  by (cases "exists fs (sd_root a @ [''MemoryCards''])") auto

theorem main_exit_code_witness:
  "\<not> exists (Dir []) (sd_root ex_args @ [''MemoryCards'']) \<and>
   main no_json ex_args (Dir []) = Inr (1, Dir []) \<and>
   exists ex_mcgcp_fs (sd_root ex_args @ [''MemoryCards'']) \<and>
   main no_json ex_args ex_mcgcp_fs = Inr (0, ex_gcmce_out) \<and>
   exists ex_empty_cards (sd_root ex_args @ [''MemoryCards'']) \<and>
   region_map_json ex_args = None \<and> backup_dir ex_args = None \<and> rename_to_gcmce ex_args \<and>
   scan_mcgcp (sd_root ex_args @ [''MemoryCards'']) ex_empty_cards = Inr [] \<and>
   main no_json ex_args ex_empty_cards = Inr (0, ex_empty_cards)"
proof -
  have a: "\<not> exists (Dir []) (sd_root ex_args @ [''MemoryCards''])"
    by (simp add: ex_args_def exists_def)
  have b: "main no_json ex_args ex_mcgcp_fs = Inr (0, ex_gcmce_out)"
    "exists ex_mcgcp_fs (sd_root ex_args @ [''MemoryCards''])"
    by code_simp+
  have c: "exists ex_empty_cards (sd_root ex_args @ [''MemoryCards''])"
    "region_map_json ex_args = None" "backup_dir ex_args = None" "rename_to_gcmce ex_args"
    "scan_mcgcp (sd_root ex_args @ [''MemoryCards'']) ex_empty_cards = Inr []"
    by (simp_all add: ex_args_def ex_empty_cards_def exists_def scan_mcgcp_def iterdir_def)
  from main_exit_code [of "Dir []" ex_args no_json 1 "Dir []"] a
  have r1: "main no_json ex_args (Dir []) = Inr (1, Dir [])" by blast
  from main_exit_code [of ex_mcgcp_fs ex_args no_json 0 ex_gcmce_out] b
  have r2: "(0::int) = 1 \<longleftrightarrow> \<not> exists ex_mcgcp_fs (sd_root ex_args @ [''MemoryCards''])" by blast
  from main_exit_code [of ex_empty_cards ex_args no_json 0 ex_empty_cards] c
  have r3: "main no_json ex_args ex_empty_cards = Inr (0, ex_empty_cards)" by simp
  from a b c r1 r3 show ?thesis by simp
qed

subsection \<open>Dry runs\<close>

text \<open>
  In a dry run \<open>execute_plan\<close> and \<open>do_backup\<close> leave the file system as it is, and so does
  \<open>main\<close> when no backup directory is given. With a backup directory, the file system
  \<open>main\<close> leaves is the one produced by creating that directory and its parents (line 268).
\<close>

lemma execute_plan_dry_run: "execute_plan plan ov True v fs = (None, fs)"
  by (induction plan) auto

lemma do_backup_dry_run: "do_backup sd b ov True fs = Inr fs"
  by (simp add: do_backup_def)

lemma main_dry_run_no_backup:
  "dry_run a \<Longrightarrow> backup_dir a = None \<Longrightarrow> main jl a fs = Inr (code, fs') \<Longrightarrow> fs' = fs"
  by (auto simp: main_def Let_def execute_plan_dry_run
      split: sum.splits prod.splits option.splits if_splits)

lemma main_dry_run_backup:
  "dry_run a \<Longrightarrow> backup_dir a = Some b \<Longrightarrow> main jl a fs = Inr (code, fs') \<Longrightarrow>
   exists fs (sd_root a @ [''MemoryCards'']) \<Longrightarrow> mkdirs b fs = Inr fs'"
  by (auto simp: main_def Let_def execute_plan_dry_run do_backup_dry_run mkdir_p_def
      split: sum.splits prod.splits option.splits if_splits)

text \<open>
  C1. A dry run of \<open>main\<close> with \<open>--backup-dir /bk\<close> on a tree that has \<open>/sd/MemoryCards\<close> and
  no \<open>/bk\<close> returns 0 and leaves a file system in which the directory \<open>/bk\<close> has been
  created: the run is not free of file system mutations.
\<close>

theorem dry_run_main_creates_backup_dir:
  "dry_run ex_dry_args \<and> backup_dir ex_dry_args = Some [''bk''] \<and>
   \<not> exists ex_mcgcp_fs [''bk''] \<and>
   main no_json ex_dry_args ex_mcgcp_fs = Inr (0, ex_mcgcp_fs_bk) \<and>
   is_dir ex_mcgcp_fs_bk [''bk''] \<and> ex_mcgcp_fs_bk \<noteq> ex_mcgcp_fs"
  by code_simp

subsection \<open>Moves planned in place\<close>










end
